theory Spec2Isabelle
  imports Main
begin

section \<open>Values, errors and the result envelope\<close>

text \<open>
  The controller \<^verbatim>\<open>src/services/auth.service.js\<close> exports six asynchronous handlers
  \<open>(req, res, next)\<close>. Each one either returns a result envelope or hands an error to
  \<open>next\<close>. Response payloads are JSON values; strings are byte sequences (UTF-8).
\<close>

datatype json = JStr string | JArr "json list" | JObj "(string \<times> json) list"

fun get_field :: "string \<Rightarrow> json \<Rightarrow> json option" where
  "get_field k (JObj fields) = map_of fields k"
| "get_field k (JStr s) = None"
| "get_field k (JArr xs) = None"

fun field_names :: "json \<Rightarrow> string list" where
  "field_names (JObj fields) = map fst fields"
| "field_names (JStr s) = []"
| "field_names (JArr xs) = []"


text \<open>
  A JavaScript error object: its optional numeric \<open>code\<close> property (the handlers test
  \<open>error?.code === 11000\<close>) and its message.
\<close>

datatype error = Thrown "int option" string

fun error_code :: "error \<Rightarrow> int option" where
  "error_code (Thrown c m) = c"

text \<open>One entry of \<open>errors.array()\<close> of the external validator; the handlers read \<open>msg\<close>.\<close>

record validation_error =
  msg :: string
  param :: string

record envelope =
  payload :: json
  success :: bool
  isError :: bool
  message :: string
  statusCode :: nat
  oldInput :: "json option"
  validationErrors :: "validation_error list option"

text \<open>
  Modelled from the spec: \<^verbatim>\<open>utils/response\<close> (the function \<open>Response\<close>) is not under
  \<^verbatim>\<open>src/\<close>. The spec's ResultEnvelope is \<open>{payload, success, isError, message, statusCode,
  optional oldInput, optional validationErrors}\<close>; the five arguments of every call in the
  controller are, in order, the payload, the success flag, the error flag, the message and
  the status code. The two optional members are absent until a handler assigns them.
\<close>

definition Response :: "json \<Rightarrow> bool \<Rightarrow> bool \<Rightarrow> string \<Rightarrow> nat \<Rightarrow> envelope" where
  "Response data ok err text_msg status =
     \<lparr>payload = data, success = ok, isError = err, message = text_msg, statusCode = status,
      oldInput = None, validationErrors = None\<rparr>"

text \<open>A handler returns an envelope, or calls \<open>next(error)\<close> (the generic error path).\<close>

datatype outcome = Returned envelope | Forwarded error

fun returned :: "outcome \<Rightarrow> envelope option" where
  "returned (Returned e) = Some e"
| "returned (Forwarded err) = None"

definition outcome_status :: "outcome \<Rightarrow> nat option" where
  "outcome_status out = map_option statusCode (returned out)"

definition outcome_message :: "outcome \<Rightarrow> string option" where
  "outcome_message out = map_option message (returned out)"

definition outcome_payload :: "outcome \<Rightarrow> json option" where
  "outcome_payload out = map_option payload (returned out)"

definition payload_field :: "string \<Rightarrow> outcome \<Rightarrow> json option" where
  "payload_field k out =
     (case outcome_payload out of None \<Rightarrow> None | Some data \<Rightarrow> get_field k data)"

definition user_field :: "string \<Rightarrow> outcome \<Rightarrow> json option" where
  "user_field k out =
     (case payload_field ''user'' out of None \<Rightarrow> None | Some obj \<Rightarrow> get_field k obj)"

definition user_field_names :: "outcome \<Rightarrow> string list" where
  "user_field_names out =
     (case payload_field ''user'' out of None \<Rightarrow> [] | Some obj \<Rightarrow> field_names obj)"

definition outcome_success :: "outcome \<Rightarrow> bool option" where
  "outcome_success out = map_option success (returned out)"

definition outcome_isError :: "outcome \<Rightarrow> bool option" where
  "outcome_isError out = map_option isError (returned out)"

definition echoed_field :: "string \<Rightarrow> outcome \<Rightarrow> json option" where
  "echoed_field k out =
     (case returned out of
        None \<Rightarrow> None
      | Some e \<Rightarrow> (case oldInput e of None \<Rightarrow> None | Some old \<Rightarrow> get_field k old))"

definition echoed_names :: "outcome \<Rightarrow> string list" where
  "echoed_names out =
     (case returned out of
        None \<Rightarrow> []
      | Some e \<Rightarrow> (case oldInput e of None \<Rightarrow> [] | Some old \<Rightarrow> field_names old))"

section \<open>Requests\<close>

text \<open>
  The parts of the Express request the handlers read: the body members they destructure,
  the two path parameters of the reset route, \<open>req.user\<close> (set by the authentication
  middleware), and the verdict \<open>validationResult(req)\<close> of the external validator as the
  ordered list \<open>errors.array()\<close>. Body members are the strings the body parser delivered;
  \<open>cart\<close> and \<open>role\<close> are optional, and \<open>refreshToken\<close> is optional because \<open>logout\<close>
  tests it (\<open>None\<close> is \<open>undefined\<close>).
\<close>

record request =
  body_firstName :: string
  body_lastName :: string
  body_email :: string
  body_password :: string
  body_confirmPassword :: string
  body_dateOfBirth :: string
  body_gender :: string
  body_cart :: "string option"
  body_role :: "string option"
  body_refreshToken :: "string option"
  params_userId :: string
  params_token :: string
  req_user :: json
  validationResult :: "validation_error list"

section \<open>Persistent documents and the world a handler acts on\<close>

text \<open>
  A user document; \<open>uid\<close> is the source's \<open>_id\<close>. In a stored document \<open>password\<close> holds
  the one-way hash.
\<close>

record user =
  uid :: string
  firstName :: string
  lastName :: string
  email :: string
  password :: string
  confirmPassword :: string
  dateOfBirth :: string
  gender :: string
  cart :: "string option"
  role :: string
  createdAt :: string
  updatedAt :: string

record reset_token =
  userId :: string
  resetPasswordToken :: string
  resetPasswordExpires :: string

record cookie_options =
  httpOnly :: bool
  maxAge :: nat
  secure :: bool

datatype cookie_op = SetCookie string string cookie_options | ClearCookie string

datatype mail =
  ResetPasswordEmail string string string
| ConfirmResetPasswordEmail string string string

text \<open>
  The state outside the handler: the two collections, the cookie instructions given to the
  response object \<open>res\<close>, and the mails handed to the notification sender. The reset-token
  collection is keyed by the owning user (the spec: "persists single-use password-reset
  tokens keyed by user", "at most one live token per user"): it maps a user id to the
  token string and the expiry of that user's live token.
\<close>

record world =
  users :: "user list"
  tokens :: "string \<rightharpoonup> string \<times> string"
  cookies :: "cookie_op list"
  outbox :: "mail list"

text \<open>The calls into the two stores that may reject.\<close>

datatype store_op =
  Op_User_findOne | Op_User_findById | Op_User_save | Op_User_comparePassword
| Op_Token_findOne | Op_Token_save | Op_Token_delete

text \<open>
  What the handler cannot decide by itself, fixed for one request: which store call
  rejects and with what error (\<open>fault\<close>), the fresh object id, the hash and the hash
  comparison of the user model, the clock of the store's timestamps, the three signing
  functions and the refresh-token verifier, the random value and the expiry of a new reset
  token, two members of the configuration, and the names bound on the global object of
  the JavaScript realm.
\<close>

record env =
  fault :: "store_op \<Rightarrow> error option"
  new_ObjectId :: string
  hash_password :: "string \<Rightarrow> string"
  password_matches :: "string \<Rightarrow> string \<Rightarrow> bool"
  now :: string
  createJWT :: "string \<Rightarrow> error + string"
  signAccessToken :: "string \<Rightarrow> error + string"
  signRefreshToken :: "string \<Rightarrow> error + string"
  verifyRefreshToken :: "string \<Rightarrow> error + string"
  random_token :: string
  token_expiry :: string
  CLIENT_URL :: string
  NODE_ENV :: string
  globals :: "string list"

section \<open>The credential store\<close>

text \<open>
  Modelled from the spec: \<^verbatim>\<open>models/users.model\<close> (the Mongoose model \<open>User\<close> with
  \<open>save\<close>, \<open>findOne\<close>, \<open>findById\<close>, \<open>comparePassword\<close>, \<open>createJWT\<close>) is not under
  \<^verbatim>\<open>src/\<close>. The spec's Credential Store "persists user records (email, hashed password,
  profile fields) and enforces email uniqueness"; the email of a User is "unique,
  case-normalized"; the password is "stored only as a one-way hash" and "rehashed whenever
  it changes value"; the role defaults to "user"; records carry timestamps. A uniqueness
  violation is the error with code 11000 that \<open>signup\<close> tests for. Any call may also
  reject with an infrastructure error (\<open>fault\<close>), and a rejected call leaves the store as
  it was.
\<close>

text \<open>
  Case normalization of an address: the letters \<open>A\<close> to \<open>Z\<close> (bytes 65 to 90) are
  folded to \<open>a\<close> to \<open>z\<close>, every other byte is kept. A User document holds its address
  in this form, and the store's uniqueness is uniqueness of the normalized address.
\<close>

definition lower_char :: "char \<Rightarrow> char" where
  "lower_char c =
     (if 65 \<le> (of_char c :: nat) \<and> (of_char c :: nat) \<le> 90
      then char_of ((of_char c :: nat) + 32) else c)"

definition normalize_email :: "string \<Rightarrow> string" where
  "normalize_email address = map lower_char address"

definition duplicate_key :: error where
  "duplicate_key = Thrown (Some 11000) ''E11000 duplicate key error''"

definition User_findOne :: "env \<Rightarrow> string \<Rightarrow> world \<Rightarrow> error + user option" where
  "User_findOne env mail_address w =
     (case fault env Op_User_findOne of
        Some err \<Rightarrow> Inl err
      | None \<Rightarrow> Inr (find (\<lambda>u. email u = mail_address) (users w)))"

definition User_findById :: "env \<Rightarrow> string \<Rightarrow> world \<Rightarrow> error + user option" where
  "User_findById env ident w =
     (case fault env Op_User_findById of
        Some err \<Rightarrow> Inl err
      | None \<Rightarrow> Inr (find (\<lambda>u. uid u = ident) (users w)))"

text \<open>\<open>new User({...})\<close> of \<open>signup\<close>: the document in memory, before it is saved.\<close>

definition new_User :: "env \<Rightarrow> request \<Rightarrow> user" where
  "new_User env req =
     \<lparr>uid = new_ObjectId env,
      firstName = body_firstName req,
      lastName = body_lastName req,
      email = normalize_email (body_email req),
      password = body_password req,
      confirmPassword = body_confirmPassword req,
      dateOfBirth = body_dateOfBirth req,
      gender = body_gender req,
      cart = body_cart req,
      role = (case body_role req of None \<Rightarrow> ''user'' | Some r \<Rightarrow> r),
      createdAt = [],
      updatedAt = []\<rparr>"

text \<open>
  \<open>newUser.save()\<close>: insert a new document, hashing the password on the way. The save
  is rejected with the duplicate-key error when a stored account has the same address up
  to case; what is stored holds the normalized address.
\<close>

definition User_insert :: "env \<Rightarrow> user \<Rightarrow> world \<Rightarrow> (error + user) \<times> world" where
  "User_insert env doc w =
     (case fault env Op_User_save of
        Some err \<Rightarrow> (Inl err, w)
      | None \<Rightarrow>
          if normalize_email (email doc) \<in>
               set (map (\<lambda>u. normalize_email (email u)) (users w))
          then (Inl duplicate_key, w)
          else
            (let stored = doc\<lparr>email := normalize_email (email doc),
                               password := hash_password env (password doc),
                               confirmPassword := hash_password env (confirmPassword doc),
                               createdAt := now env,
                               updatedAt := now env\<rparr>
             in (Inr stored, w\<lparr>users := users w @ [stored]\<rparr>)))"

text \<open>
  \<open>user.save()\<close> of \<open>resetPassword\<close>: write a loaded document back. \<open>before\<close> is the
  document as loaded, \<open>doc\<close> the document after the handler's assignments; a password that
  changed value is rehashed.
\<close>

definition rehash :: "env \<Rightarrow> string \<Rightarrow> string \<Rightarrow> string" where
  "rehash env old new = (if new = old then old else hash_password env new)"

definition User_update :: "env \<Rightarrow> user \<Rightarrow> user \<Rightarrow> world \<Rightarrow> (error + user) \<times> world" where
  "User_update env before doc w =
     (case fault env Op_User_save of
        Some err \<Rightarrow> (Inl err, w)
      | None \<Rightarrow>
          (let stored = doc\<lparr>password := rehash env (password before) (password doc),
                             confirmPassword :=
                               rehash env (confirmPassword before) (confirmPassword doc),
                             updatedAt := now env\<rparr>
           in (Inr stored,
               w\<lparr>users := map (\<lambda>u. if uid u = uid doc then stored else u) (users w)\<rparr>)))"

text \<open>The document \<open>user.save()\<close> of \<open>resetPassword\<close> stores for the loaded user \<open>u\<close>.\<close>

definition password_reset_of :: "env \<Rightarrow> request \<Rightarrow> user \<Rightarrow> user" where
  "password_reset_of env req u =
     u\<lparr>password := rehash env (password u) (body_password req),
       confirmPassword := rehash env (confirmPassword u) (body_confirmPassword req),
       updatedAt := now env\<rparr>"

definition User_comparePassword :: "env \<Rightarrow> user \<Rightarrow> string \<Rightarrow> error + bool" where
  "User_comparePassword env u candidate =
     (case fault env Op_User_comparePassword of
        Some err \<Rightarrow> Inl err
      | None \<Rightarrow> Inr (password_matches env candidate (password u)))"

section \<open>The reset-token store\<close>

text \<open>
  Modelled from the spec: \<^verbatim>\<open>models/token.model\<close> (the Mongoose model \<open>Token\<close> with
  \<open>findOne\<close>, \<open>save\<close>, \<open>delete\<close>, \<open>generatePasswordReset\<close>) is not under \<^verbatim>\<open>src/\<close>. The
  spec's Reset Token Store "persists single-use password-reset tokens keyed by user"; a
  ResetToken is the "owning user id (one active token per user), random opaque token
  string, expiry timestamp". A live token is one the store holds. \<open>token_document\<close> is
  the document a query hands to the controller for the entry of a user.
\<close>

definition token_document :: "string \<Rightarrow> string \<times> string \<Rightarrow> reset_token" where
  "token_document owner entry =
     \<lparr>userId = owner, resetPasswordToken = fst entry, resetPasswordExpires = snd entry\<rparr>"

definition Token_findOne_userId :: "env \<Rightarrow> string \<Rightarrow> world \<Rightarrow> error + reset_token option" where
  "Token_findOne_userId env owner w =
     (case fault env Op_Token_findOne of
        Some err \<Rightarrow> Inl err
      | None \<Rightarrow> Inr (map_option (token_document owner) (tokens w owner)))"

definition Token_findOne_userId_token ::
    "env \<Rightarrow> string \<Rightarrow> string \<Rightarrow> world \<Rightarrow> error + reset_token option" where
  "Token_findOne_userId_token env owner secret w =
     (case fault env Op_Token_findOne of
        Some err \<Rightarrow> Inl err
      | None \<Rightarrow>
          (case tokens w owner of
             None \<Rightarrow> Inr None
           | Some entry \<Rightarrow>
               if fst entry = secret then Inr (Some (token_document owner entry))
               else Inr None))"

text \<open>\<open>new Token({ userId })\<close> followed by \<open>token.generatePasswordReset()\<close>.\<close>

definition new_Token :: "env \<Rightarrow> string \<Rightarrow> reset_token" where
  "new_Token env owner =
     \<lparr>userId = owner, resetPasswordToken = random_token env,
      resetPasswordExpires = token_expiry env\<rparr>"

definition Token_save :: "env \<Rightarrow> reset_token \<Rightarrow> world \<Rightarrow> (error + reset_token) \<times> world" where
  "Token_save env t w =
     (case fault env Op_Token_save of
        Some err \<Rightarrow> (Inl err, w)
      | None \<Rightarrow>
          (Inr t,
           w\<lparr>tokens :=
               (tokens w)(userId t \<mapsto> (resetPasswordToken t, resetPasswordExpires t))\<rparr>))"

definition Token_delete :: "env \<Rightarrow> reset_token \<Rightarrow> world \<Rightarrow> (error + unit) \<times> world" where
  "Token_delete env t w =
     (case fault env Op_Token_delete of
        Some err \<Rightarrow> (Inl err, w)
      | None \<Rightarrow> (Inr (), w\<lparr>tokens := (tokens w)(userId t := None)\<rparr>))"

section \<open>Transport and notification\<close>

definition res_cookie :: "string \<Rightarrow> string \<Rightarrow> cookie_options \<Rightarrow> world \<Rightarrow> world" where
  "res_cookie name content opts w = w\<lparr>cookies := cookies w @ [SetCookie name content opts]\<rparr>"

definition res_clearCookie :: "string \<Rightarrow> world \<Rightarrow> world" where
  "res_clearCookie name w = w\<lparr>cookies := cookies w @ [ClearCookie name]\<rparr>"

definition send_mail :: "mail \<Rightarrow> world \<Rightarrow> world" where
  "send_mail m w = w\<lparr>outbox := outbox w @ [m]\<rparr>"

section \<open>The token signer\<close>

text \<open>
  Modelled from the spec: \<^verbatim>\<open>utils/jwtHelper\<close> (\<open>signAccessToken\<close>, \<open>signRefreshToken\<close>,
  \<open>verifyRefreshToken\<close>) and the method \<open>createJWT\<close> of the user model are not under
  \<^verbatim>\<open>src/\<close>. The spec's Token Signer "produces and verifies" the tokens, "all derived from
  the user id at issuance time", and a "signer internal failure" is an error. They are the
  members \<open>createJWT\<close>, \<open>signAccessToken\<close>, \<open>signRefreshToken\<close> and \<open>verifyRefreshToken\<close>
  of \<open>env\<close>: functions of the user id (of the token string, for the verifier) that
  return an error or a string. The handlers do not inspect what the signer returns.
\<close>

section \<open>The handlers of \<^verbatim>\<open>auth.service.js\<close>\<close>

text \<open>The reply every handler gives when the validator reported errors (code 422).\<close>

definition validation_failure ::
    "validation_error \<Rightarrow> validation_error list \<Rightarrow> json \<Rightarrow> envelope" where
  "validation_failure first rest echo =
     (Response (JObj []) False True (msg first) 422)
       \<lparr>oldInput := Some echo, validationErrors := Some (first # rest)\<rparr>"

subsection \<open>signup (lines 18 to 87)\<close>

text \<open>The \<open>catch\<close> block of \<open>signup\<close>: code 11000 becomes the 409 envelope.\<close>

definition signup_catch :: "user \<Rightarrow> error \<Rightarrow> world \<Rightarrow> outcome \<times> world" where
  "signup_catch newUser err w =
     (if error_code err = Some 11000 then
        (Returned (Response (JObj []) False True
           (''E-Mail address  '' @ email newUser @
            '' is already exists, please pick a different one.'') 409), w)
      else (Forwarded err, w))"

definition signup :: "env \<Rightarrow> request \<Rightarrow> world \<Rightarrow> outcome \<times> world" where
  "signup env req w =
     (case validationResult req of
        first # rest \<Rightarrow>
          (Returned (validation_failure first rest
             (JObj [(''firstName'', JStr (body_firstName req)),
                    (''lastName'', JStr (body_lastName req)),
                    (''email'', JStr (body_email req)),
                    (''password'', JStr (body_password req)),
                    (''confirmPassword'', JStr (body_confirmPassword req)),
                    (''dateOfBirth'', JStr (body_dateOfBirth req)),
                    (''gender'', JStr (body_gender req))])), w)
      | [] \<Rightarrow>
          (let newUser = new_User env req in
           case User_insert env newUser w of
             (Inl err, w1) \<Rightarrow> signup_catch newUser err w1
           | (Inr saved, w1) \<Rightarrow>
               (case createJWT env (uid saved) of
                  Inl err \<Rightarrow> signup_catch newUser err w1
                | Inr token \<Rightarrow>
                    (case signAccessToken env (uid saved) of
                       Inl err \<Rightarrow> signup_catch newUser err w1
                     | Inr accessToken \<Rightarrow>
                         (case signRefreshToken env (uid saved) of
                            Inl err \<Rightarrow> signup_catch newUser err w1
                          | Inr refreshToken \<Rightarrow>
                              (Returned (Response
                                 (JObj [(''token'', JStr token),
                                        (''accessToken'', JStr accessToken),
                                        (''refreshToken'', JStr refreshToken)])
                                 True False ''Registered Successfully'' 201), w1))))))"

subsection \<open>login (lines 95 to 174)\<close>

definition invalid_credentials :: envelope where
  "invalid_credentials = Response (JObj []) False True ''Auth Failed (Invalid Credentials)'' 401"

definition login_cookie :: "env \<Rightarrow> nat \<Rightarrow> cookie_options" where
  "login_cookie env age =
     \<lparr>httpOnly = True, maxAge = age, secure = (NODE_ENV env = ''production'')\<rparr>"

definition login :: "env \<Rightarrow> request \<Rightarrow> world \<Rightarrow> outcome \<times> world" where
  "login env req w =
     (case validationResult req of
        first # rest \<Rightarrow>
          (Returned (validation_failure first rest
             (JObj [(''email'', JStr (body_email req)),
                    (''password'', JStr (body_password req))])), w)
      | [] \<Rightarrow>
          (case User_findOne env (body_email req) w of
             Inl err \<Rightarrow> (Forwarded err, w)
           | Inr None \<Rightarrow> (Returned invalid_credentials, w)
           | Inr (Some u) \<Rightarrow>
               (case User_comparePassword env u (body_password req) of
                  Inl err \<Rightarrow> (Forwarded err, w)
                | Inr False \<Rightarrow> (Returned invalid_credentials, w)
                | Inr True \<Rightarrow>
                    (case createJWT env (uid u) of
                       Inl err \<Rightarrow> (Forwarded err, w)
                     | Inr token \<Rightarrow>
                         (case signAccessToken env (uid u) of
                            Inl err \<Rightarrow> (Forwarded err, w)
                          | Inr accessToken \<Rightarrow>
                              (case signRefreshToken env (uid u) of
                                 Inl err \<Rightarrow> (Forwarded err, w)
                               | Inr refreshToken \<Rightarrow>
                                   (let data =
                                      JObj [(''user'',
                                        JObj [(''_id'', JStr (uid u)),
                                              (''firstName'', JStr (firstName u)),
                                              (''lastName'', JStr (lastName u)),
                                              (''email'', JStr (email u)),
                                              (''dateOfBirth'', JStr (dateOfBirth u)),
                                              (''gender'', JStr (gender u)),
                                              (''createdAt'', JStr (createdAt u)),
                                              (''updatedAt'', JStr (updatedAt u)),
                                              (''role'', JStr (role u)),
                                              (''token'', JStr token),
                                              (''accessToken'', JStr accessToken),
                                              (''refreshToken'', JStr refreshToken)])];
                                      w1 = res_cookie ''authToken'' token
                                             (login_cookie env (365 * 24 * 60 * 60 * 1000)) w;
                                      w2 = res_cookie ''accessToken'' accessToken
                                             (login_cookie env (24 * 60 * 60 * 1000)) w1;
                                      w3 = res_cookie ''refreshToken'' refreshToken
                                             (login_cookie env (7 * 24 * 60 * 60 * 1000)) w2
                                    in (Returned (Response data True False
                                          ''Auth successful'' 200), w3))))))))"

subsection \<open>getMe (lines 182 to 188)\<close>

definition getMe :: "env \<Rightarrow> request \<Rightarrow> world \<Rightarrow> outcome \<times> world" where
  "getMe env req w =
     (Returned (Response (JObj [(''user'', req_user req)]) True False
        ''Successfully found user profile'' 200), w)"

subsection \<open>requestPasswordReset (lines 196 to 240)\<close>

definition requestPasswordReset :: "env \<Rightarrow> request \<Rightarrow> world \<Rightarrow> outcome \<times> world" where
  "requestPasswordReset env req w =
     (case validationResult req of
        first # rest \<Rightarrow>
          (Returned (validation_failure first rest
             (JObj [(''email'', JStr (body_email req))])), w)
      | [] \<Rightarrow>
          (case User_findOne env (body_email req) w of
             Inl err \<Rightarrow> (Forwarded err, w)
           | Inr None \<Rightarrow>
               (Returned (Response (JObj []) False True
                  (''The email address '' @ body_email req @
                   '' is not associated with any account. Double-check your email address and try again.'')
                  401), w)
           | Inr (Some u) \<Rightarrow>
               (case Token_findOne_userId env (uid u) w of
                  Inl err \<Rightarrow> (Forwarded err, w)
                | Inr found \<Rightarrow>
                    (case (case found of
                             Some existing \<Rightarrow> (Inr existing, w)
                           | None \<Rightarrow> Token_save env (new_Token env (uid u)) w) of
                       (Inl err, w1) \<Rightarrow> (Forwarded err, w1)
                     | (Inr token, w1) \<Rightarrow>
                         (let link = CLIENT_URL env @ ''/reset-password/token='' @
                                     resetPasswordToken token @ ''&id='' @ userId token;
                              w2 = send_mail
                                     (ResetPasswordEmail (body_email req) (firstName u) link) w1
                          in (Returned (Response (JStr (resetPasswordToken token)) True False
                                (''A reset email has been sent to '' @ body_email req @ ''.'')
                                200), w2))))))"

subsection \<open>resetPassword (lines 248 to 288)\<close>

definition invalid_reset_token :: envelope where
  "invalid_reset_token =
     Response (JObj []) False True ''Password reset token is invalid or has expired.'' 400"

definition resetPassword :: "env \<Rightarrow> request \<Rightarrow> world \<Rightarrow> outcome \<times> world" where
  "resetPassword env req w =
     (case validationResult req of
        first # rest \<Rightarrow>
          (Returned (validation_failure first rest
             (JObj [(''email'', JStr (body_email req))])), w)
      | [] \<Rightarrow>
          (case User_findById env (params_userId req) w of
             Inl err \<Rightarrow> (Forwarded err, w)
           | Inr None \<Rightarrow> (Returned invalid_reset_token, w)
           | Inr (Some u) \<Rightarrow>
               (case Token_findOne_userId_token env (uid u) (params_token req) w of
                  Inl err \<Rightarrow> (Forwarded err, w)
                | Inr None \<Rightarrow> (Returned invalid_reset_token, w)
                | Inr (Some passwordResetToken) \<Rightarrow>
                    (let changed = u\<lparr>password := body_password req,
                                      confirmPassword := body_confirmPassword req\<rparr>
                     in case User_update env u changed w of
                          (Inl err, w1) \<Rightarrow> (Forwarded err, w1)
                        | (Inr saved, w1) \<Rightarrow>
                            (case Token_delete env passwordResetToken w1 of
                               (Inl err, w2) \<Rightarrow> (Forwarded err, w2)
                             | (Inr done_unit, w2) \<Rightarrow>
                                 (let link = CLIENT_URL env @ ''/login'';
                                      w3 = send_mail
                                             (ConfirmResetPasswordEmail (email saved)
                                                (firstName saved) link) w2
                                  in (Returned (Response (JObj []) True False
                                        ''Your password has been Password Reset Successfully updated.''
                                        200), w3)))))))"

subsection \<open>logout (lines 296 to 324)\<close>

text \<open>
  Line 309 of the source is the expression statement \<open>s\<close>: an identifier that is resolved
  when control reaches it. The names in scope there are the handler's parameters and
  locals, the module's top-level bindings and the CommonJS wrapper's parameters; any other
  name is looked up on the global object, and an unbound one throws a ReferenceError
  (inside the \<open>try\<close> block, hence forwarded to \<open>next\<close>).
\<close>

definition logout_scope :: "string list" where
  "logout_scope =
     [''req'', ''res'', ''next'', ''refreshToken'', ''userId'', ''user'',
      ''mongoose'', ''validationResult'', ''User'', ''Token'', ''emailTemplate'', ''Response'',
      ''signAccessToken'', ''signRefreshToken'', ''verifyRefreshToken'',
      ''WEBSITE_URL'', ''API_VERSION'', ''CLIENT_URL'',
      ''exports'', ''require'', ''module'', ''__filename'', ''__dirname'']"

definition resolve_identifier :: "env \<Rightarrow> string \<Rightarrow> error + unit" where
  "resolve_identifier env name =
     (if name \<in> set (logout_scope @ globals env) then Inr ()
      else Inl (Thrown None (''ReferenceError: '' @ name @ '' is not defined'')))"

definition logged_out_message :: string where
  "logged_out_message =
     ''Successfully logged out '' @ [CHR 0xF0, CHR 0x9F, CHR 0x98, CHR 0x8F] @ '' '' @
     [CHR 0xF0, CHR 0x9F, CHR 0x8D, CHR 0x80]"

definition logout :: "env \<Rightarrow> request \<Rightarrow> world \<Rightarrow> outcome \<times> world" where
  "logout env req w =
     (case body_refreshToken req of
        None \<Rightarrow>
          (Returned (Response (JObj []) False True
             ''Bad Request Please provide a valid  refreshToken.'' 422), w)
      | Some refreshToken \<Rightarrow>
          if refreshToken = [] then
            (Returned (Response (JObj []) False True
               ''Bad Request Please provide a valid  refreshToken.'' 422), w)
          else
            (case verifyRefreshToken env refreshToken of
               Inl err \<Rightarrow> (Forwarded err, w)
             | Inr ident \<Rightarrow>
                 (case User_findById env ident w of
                    Inl err \<Rightarrow> (Forwarded err, w)
                  | Inr None \<Rightarrow>
                      (Returned (Response (JArr []) False True ''Unauthenticated'' 400), w)
                  | Inr (Some u) \<Rightarrow>
                      (case resolve_identifier env ''s'' of
                         Inl err \<Rightarrow> (Forwarded err, w)
                       | Inr looked_up \<Rightarrow>
                           (let w1 = res_clearCookie ''accessToken'' w;
                                w2 = res_clearCookie ''refreshToken'' w1
                            in (Returned (Response (JArr []) False True
                                  logged_out_message 200), w2))))))"

section \<open>Concrete inputs\<close>

text \<open>A small world and collaborators on which the handlers can be run.\<close>

definition alice :: user where
  "alice =
     \<lparr>uid = ''u1'', firstName = ''Alice'', lastName = ''Doe'', email = ''a@x.com'',
      password = ''hash:Secret1!'', confirmPassword = ''hash:Secret1!'',
      dateOfBirth = ''1990-01-01'', gender = ''female'', cart = None, role = ''user'',
      createdAt = ''t0'', updatedAt = ''t0''\<rparr>"

definition sample_env :: env where
  "sample_env =
     \<lparr>fault = (\<lambda>call. None),
      new_ObjectId = ''u2'',
      hash_password = (\<lambda>p. ''hash:'' @ p),
      password_matches = (\<lambda>candidate h. h = ''hash:'' @ candidate),
      now = ''t1'',
      createJWT = (\<lambda>ident. Inr (''jwt.'' @ ident)),
      signAccessToken = (\<lambda>ident. Inr (''access.'' @ ident)),
      signRefreshToken = (\<lambda>ident. Inr (''refresh.'' @ ident)),
      verifyRefreshToken =
        (\<lambda>t. if take 8 t = ''refresh.'' then Inr (drop 8 t)
             else Inl (Thrown None ''JsonWebTokenError: jwt malformed'')),
      random_token = ''r4nd0m'',
      token_expiry = ''t2'',
      CLIENT_URL = ''http://localhost:3000'',
      NODE_ENV = ''development'',
      globals = [''globalThis'', ''global'', ''process'', ''console'', ''Buffer'',
                 ''setTimeout'', ''setInterval'', ''setImmediate'', ''clearTimeout'',
                 ''queueMicrotask'', ''URL'', ''Object'', ''Array'', ''String'', ''Promise'',
                 ''JSON'', ''Math'', ''Error'', ''undefined'']\<rparr>"

definition sample_world :: world where
  "sample_world = \<lparr>users = [alice], tokens = Map.empty, cookies = [], outbox = []\<rparr>"

definition world_with_token :: world where
  "world_with_token = sample_world\<lparr>tokens := [''u1'' \<mapsto> (''tok1'', ''t2'')]\<rparr>"

definition blank_request :: request where
  "blank_request =
     \<lparr>body_firstName = [], body_lastName = [], body_email = [], body_password = [],
      body_confirmPassword = [], body_dateOfBirth = [], body_gender = [],
      body_cart = None, body_role = None, body_refreshToken = None,
      params_userId = [], params_token = [], req_user = JObj [],
      validationResult = []\<rparr>"

definition signup_bob :: request where
  "signup_bob =
     blank_request\<lparr>body_firstName := ''Bob'', body_lastName := ''Ray'',
       body_email := ''b@x.com'', body_password := ''Secret1!'',
       body_confirmPassword := ''Secret1!'', body_dateOfBirth := ''1991-02-03'',
       body_gender := ''male''\<rparr>"

definition signup_bob_invalid :: request where
  "signup_bob_invalid =
     signup_bob\<lparr>body_email := ''b-at-x.com'',
       validationResult := [\<lparr>msg = ''Please provide a valid email'', param = ''email''\<rparr>]\<rparr>"

definition signup_alice_again :: request where
  "signup_alice_again = signup_bob\<lparr>body_email := ''a@x.com''\<rparr>"

definition signup_alice_shouting :: request where
  "signup_alice_shouting = signup_bob\<lparr>body_email := ''A@X.COM''\<rparr>"

definition login_alice :: request where
  "login_alice = blank_request\<lparr>body_email := ''a@x.com'', body_password := ''Secret1!''\<rparr>"

definition login_alice_wrong :: request where
  "login_alice_wrong = blank_request\<lparr>body_email := ''a@x.com'', body_password := ''guess''\<rparr>"

definition login_nobody :: request where
  "login_nobody = blank_request\<lparr>body_email := ''n@x.com'', body_password := ''guess''\<rparr>"

definition forgot_alice :: request where
  "forgot_alice = blank_request\<lparr>body_email := ''a@x.com''\<rparr>"

definition reset_alice :: request where
  "reset_alice =
     blank_request\<lparr>params_userId := ''u1'', params_token := ''tok1'',
       body_password := ''NewSecret2!'', body_confirmPassword := ''NewSecret2!''\<rparr>"

definition reset_alice_wrong :: request where
  "reset_alice_wrong = reset_alice\<lparr>params_token := ''tok9''\<rparr>"

definition logout_alice :: request where
  "logout_alice = blank_request\<lparr>body_refreshToken := Some ''refresh.u1''\<rparr>"

definition empty_signer :: env where
  "empty_signer =
     sample_env\<lparr>createJWT := (\<lambda>ident. Inr []),
                signAccessToken := (\<lambda>ident. Inr []),
                signRefreshToken := (\<lambda>ident. Inr [])\<rparr>"

definition save_fails :: env where
  "save_fails =
     sample_env\<lparr>fault := (\<lambda>call. if call = Op_User_save
                                 then Some (Thrown None ''MongoNetworkError'') else None)\<rparr>"

section \<open>Properties of the handlers\<close>

lemmas outcome_defs = outcome_status_def outcome_message_def outcome_payload_def
  outcome_success_def outcome_isError_def echoed_field_def echoed_names_def payload_field_def
  user_field_def user_field_names_def

lemmas sample_defs = alice_def sample_env_def sample_world_def world_with_token_def
  blank_request_def signup_bob_def signup_bob_invalid_def signup_alice_again_def
  signup_alice_shouting_def empty_signer_def login_alice_def
  login_alice_wrong_def login_nobody_def forgot_alice_def reset_alice_def reset_alice_wrong_def
  logout_alice_def save_fails_def

subsection \<open>signup\<close>

lemma signup_invalid:
  "validationResult req = first # rest \<Longrightarrow>
   signup env req w =
     (Returned (validation_failure first rest
        (JObj [(''firstName'', JStr (body_firstName req)),
               (''lastName'', JStr (body_lastName req)),
               (''email'', JStr (body_email req)),
               (''password'', JStr (body_password req)),
               (''confirmPassword'', JStr (body_confirmPassword req)),
               (''dateOfBirth'', JStr (body_dateOfBirth req)),
               (''gender'', JStr (body_gender req))])), w)"
  by (simp add: signup_def)

text \<open>
  C9, as the code has it. A signup that fails input validation returns, without touching
  the stores, an envelope with status code 422 whose message is the message of the first
  validation error and whose \<open>oldInput\<close> has exactly the seven members firstName,
  lastName, email, password, confirmPassword, dateOfBirth and gender, each with the
  submitted content: the submitted password and its confirmation are echoed too (\<open>cart\<close>
  and \<open>role\<close> are not).
\<close>

theorem signup_validation_failure_echo:
  assumes invalid: "validationResult req = first # rest"
  shows "outcome_status (fst (signup env req w)) = Some 422
       \<and> outcome_message (fst (signup env req w)) = Some (msg first)
       \<and> echoed_names (fst (signup env req w)) =
           [''firstName'', ''lastName'', ''email'', ''password'', ''confirmPassword'',
            ''dateOfBirth'', ''gender'']
       \<and> echoed_field ''firstName'' (fst (signup env req w)) = Some (JStr (body_firstName req))
       \<and> echoed_field ''lastName'' (fst (signup env req w)) = Some (JStr (body_lastName req))
       \<and> echoed_field ''email'' (fst (signup env req w)) = Some (JStr (body_email req))
       \<and> echoed_field ''password'' (fst (signup env req w)) = Some (JStr (body_password req))
       \<and> echoed_field ''confirmPassword'' (fst (signup env req w)) =
           Some (JStr (body_confirmPassword req))
       \<and> echoed_field ''dateOfBirth'' (fst (signup env req w)) =
           Some (JStr (body_dateOfBirth req))
       \<and> echoed_field ''gender'' (fst (signup env req w)) = Some (JStr (body_gender req))
       \<and> snd (signup env req w) = w"
  using invalid
  by (simp add: signup_invalid validation_failure_def Response_def outcome_defs)

theorem signup_validation_failure_echo_witness:
  "validationResult signup_bob_invalid =
     [\<lparr>msg = ''Please provide a valid email'', param = ''email''\<rparr>]
   \<and> outcome_status (fst (signup sample_env signup_bob_invalid sample_world)) = Some 422
   \<and> outcome_message (fst (signup sample_env signup_bob_invalid sample_world)) =
       Some ''Please provide a valid email''
   \<and> echoed_field ''email'' (fst (signup sample_env signup_bob_invalid sample_world)) =
       Some (JStr ''b-at-x.com'')
   \<and> echoed_field ''password'' (fst (signup sample_env signup_bob_invalid sample_world)) =
       Some (JStr ''Secret1!'')"
proof -
  have h: "validationResult signup_bob_invalid =
     \<lparr>msg = ''Please provide a valid email'', param = ''email''\<rparr> # []"
    by (simp add: signup_bob_invalid_def signup_bob_def blank_request_def)
  show ?thesis
    using signup_validation_failure_echo [OF h, of sample_env sample_world] h
    by (simp add: signup_bob_invalid_def signup_bob_def blank_request_def)
qed

text \<open>
  C9 as the spec words it ("echoes non-sensitive input fields", so not the password) fails:
  the signup of Bob with a malformed e-mail address gets the password \<open>Secret1!\<close> and
  its confirmation back in \<open>oldInput\<close>.
\<close>

theorem signup_echoes_submitted_password:
  "validationResult signup_bob_invalid \<noteq> []
   \<and> body_password signup_bob_invalid = ''Secret1!''
   \<and> body_confirmPassword signup_bob_invalid = ''Secret1!''
   \<and> outcome_status (fst (signup sample_env signup_bob_invalid sample_world)) = Some 422
   \<and> echoed_field ''password'' (fst (signup sample_env signup_bob_invalid sample_world)) =
       Some (JStr ''Secret1!'')
   \<and> echoed_field ''confirmPassword'' (fst (signup sample_env signup_bob_invalid sample_world)) =
       Some (JStr ''Secret1!'')"
  by (simp add: signup_def validation_failure_def Response_def outcome_defs
      signup_bob_invalid_def signup_bob_def blank_request_def)

lemma lower_char_idem: "lower_char (lower_char c) = lower_char c"
  by (simp add: lower_char_def)

lemma normalize_email_idem: "normalize_email (normalize_email address) = normalize_email address"
  by (simp add: normalize_email_def lower_char_idem)

lemma normalize_email_samples:
  "normalize_email ''a@x.com'' = ''a@x.com''"
  "normalize_email ''b@x.com'' = ''b@x.com''"
  "normalize_email ''A@X.COM'' = ''a@x.com''"
  by code_simp+

lemma User_insert_duplicate:
  "fault env Op_User_save = None \<Longrightarrow>
   normalize_email (email doc) \<in> set (map (\<lambda>u. normalize_email (email u)) (users w)) \<Longrightarrow>
   User_insert env doc w = (Inl duplicate_key, w)"
  by (simp add: User_insert_def)


text \<open>
  C6. A signup that passes validation and whose e-mail address is, up to case, the address
  of a stored account \<open>orig\<close> (in particular when it is that address), the store answering
  the save (with its uniqueness violation), returns an envelope with \<open>isError = true\<close>,
  status code 409 and a message that names the address (as the new User document holds it,
  case-normalized); the world is left as it was, so \<open>orig\<close> is still stored with the
  password hash it had.
\<close>

theorem signup_duplicate_email_conflict:
  assumes valid: "validationResult req = []"
    and reachable: "fault env Op_User_save = None"
    and present: "orig \<in> set (users w)"
                 "normalize_email (email orig) = normalize_email (body_email req)"
  shows "outcome_isError (fst (signup env req w)) = Some True
       \<and> outcome_success (fst (signup env req w)) = Some False
       \<and> outcome_status (fst (signup env req w)) = Some 409
       \<and> outcome_message (fst (signup env req w)) =
           Some (''E-Mail address  '' @ normalize_email (body_email req) @
                 '' is already exists, please pick a different one.'')
       \<and> snd (signup env req w) = w
       \<and> orig \<in> set (users (snd (signup env req w)))"
proof -
  have "normalize_email (email (new_User env req)) \<in>
      set (map (\<lambda>u. normalize_email (email u)) (users w))"
    using present by (force simp: new_User_def normalize_email_idem)
  then have "User_insert env (new_User env req) w = (Inl duplicate_key, w)"
    using reachable by (rule User_insert_duplicate [rotated])
  then have "signup env req w =
      (Returned (Response (JObj []) False True
         (''E-Mail address  '' @ normalize_email (body_email req) @
          '' is already exists, please pick a different one.'') 409), w)"
    using valid by (simp add: signup_def signup_catch_def duplicate_key_def new_User_def)
  then show ?thesis
    using present by (simp add: Response_def outcome_defs)
qed

theorem signup_duplicate_email_conflict_witness:
  "validationResult signup_alice_again = []
   \<and> fault sample_env Op_User_save = None
   \<and> alice \<in> set (users sample_world)
   \<and> email alice = body_email signup_alice_again
   \<and> outcome_status (fst (signup sample_env signup_alice_again sample_world)) = Some 409
   \<and> outcome_message (fst (signup sample_env signup_alice_again sample_world)) =
       Some ''E-Mail address  a@x.com is already exists, please pick a different one.''
   \<and> map password (users (snd (signup sample_env signup_alice_again sample_world))) =
       [''hash:Secret1!'']"
proof -
  have h1: "validationResult signup_alice_again = []"
    and h2: "fault sample_env Op_User_save = None"
    and h3: "alice \<in> set (users sample_world)"
    and h4: "normalize_email (email alice) = normalize_email (body_email signup_alice_again)"
    and h5: "email alice = body_email signup_alice_again"
    and h6: "body_email signup_alice_again = ''a@x.com''"
    by (simp_all add: sample_defs)
  show ?thesis
    using signup_duplicate_email_conflict [OF h1 h2 h3 h4] h1 h2 h3 h5
    by (simp add: h6 normalize_email_samples) (simp add: sample_defs)
qed

text \<open>
  A signup with a case variant of Alice's address is rejected in the same way: the store
  does not take \<open>A@X.COM\<close> beside \<open>a@x.com\<close>.
\<close>

lemma signup_case_variant_conflict:
  "outcome_status (fst (signup sample_env signup_alice_shouting sample_world)) = Some 409
   \<and> outcome_message (fst (signup sample_env signup_alice_shouting sample_world)) =
       Some ''E-Mail address  a@x.com is already exists, please pick a different one.''
   \<and> map email (users (snd (signup sample_env signup_alice_shouting sample_world))) =
       [''a@x.com'']"
proof -
  have e: "body_email signup_alice_shouting = ''A@X.COM''"
    "map email (users sample_world) = [''a@x.com'']"
    "map (\<lambda>u. normalize_email (email u)) (users sample_world) = [normalize_email ''a@x.com'']"
    and valid: "validationResult signup_alice_shouting = []"
    and reachable: "fault sample_env Op_User_save = None"
    by (simp_all add: sample_defs)
  have "normalize_email (email (new_User sample_env signup_alice_shouting)) \<in>
      set (map (\<lambda>u. normalize_email (email u)) (users sample_world))"
    by (simp add: new_User_def normalize_email_idem e normalize_email_samples)
  with reachable
  have "User_insert sample_env (new_User sample_env signup_alice_shouting) sample_world =
      (Inl duplicate_key, sample_world)"
    by (rule User_insert_duplicate)
  then have "signup sample_env signup_alice_shouting sample_world =
      (Returned (Response (JObj []) False True
         ''E-Mail address  a@x.com is already exists, please pick a different one.'' 409),
       sample_world)"
    using valid
    by (simp add: signup_def signup_catch_def duplicate_key_def new_User_def e
        normalize_email_samples)
  then show ?thesis
    by (simp add: Response_def outcome_defs e)
qed




subsection \<open>login\<close>

lemma login_unknown_email:
  "validationResult req = [] \<Longrightarrow> fault env Op_User_findOne = None \<Longrightarrow>
   find (\<lambda>u. email u = body_email req) (users w) = None \<Longrightarrow>
   login env req w = (Returned invalid_credentials, w)"
  by (simp add: login_def User_findOne_def)

lemma login_wrong_password:
  "validationResult req = [] \<Longrightarrow> fault env Op_User_findOne = None \<Longrightarrow>
   find (\<lambda>u. email u = body_email req) (users w) = Some u \<Longrightarrow>
   fault env Op_User_comparePassword = None \<Longrightarrow>
   \<not> password_matches env (body_password req) (password u) \<Longrightarrow>
   login env req w = (Returned invalid_credentials, w)"
  by (simp add: login_def User_findOne_def User_comparePassword_def)

text \<open>
  C2. Take two logins that pass validation and whose store calls answer: the first for an
  e-mail address no stored account has, the second for the address of a stored account
  \<open>u\<close> with a password that does not match its hash. Both return an envelope with status
  code 401 and the message \<open>Auth Failed (Invalid Credentials)\<close>; the two outcomes are
  equal as a whole, and neither call changes the world (no cookie is set).
\<close>

theorem login_failures_indistinguishable:
  assumes valid: "validationResult req1 = []" "validationResult req2 = []"
    and reach1: "fault env1 Op_User_findOne = None"
    and reach2: "fault env2 Op_User_findOne = None" "fault env2 Op_User_comparePassword = None"
    and unknown: "find (\<lambda>u. email u = body_email req1) (users w1) = None"
    and known: "find (\<lambda>u. email u = body_email req2) (users w2) = Some u"
    and wrong: "\<not> password_matches env2 (body_password req2) (password u)"
  shows "outcome_status (fst (login env1 req1 w1)) = Some 401
       \<and> outcome_status (fst (login env2 req2 w2)) = Some 401
       \<and> outcome_message (fst (login env1 req1 w1)) = Some ''Auth Failed (Invalid Credentials)''
       \<and> outcome_message (fst (login env2 req2 w2)) = Some ''Auth Failed (Invalid Credentials)''
       \<and> fst (login env1 req1 w1) = fst (login env2 req2 w2)
       \<and> snd (login env1 req1 w1) = w1 \<and> snd (login env2 req2 w2) = w2"
proof -
  have a: "login env1 req1 w1 = (Returned invalid_credentials, w1)"
    using valid(1) reach1 unknown by (rule login_unknown_email)
  have b: "login env2 req2 w2 = (Returned invalid_credentials, w2)"
    using valid(2) reach2(1) known reach2(2) wrong by (rule login_wrong_password)
  show ?thesis
    by (simp add: a b invalid_credentials_def Response_def outcome_defs)
qed

theorem login_failures_indistinguishable_witness:
  "validationResult login_nobody = [] \<and> validationResult login_alice_wrong = []
   \<and> find (\<lambda>u. email u = body_email login_nobody) (users sample_world) = None
   \<and> find (\<lambda>u. email u = body_email login_alice_wrong) (users sample_world) = Some alice
   \<and> \<not> password_matches sample_env (body_password login_alice_wrong) (password alice)
   \<and> outcome_status (fst (login sample_env login_nobody sample_world)) = Some 401
   \<and> outcome_status (fst (login sample_env login_alice_wrong sample_world)) = Some 401
   \<and> outcome_message (fst (login sample_env login_nobody sample_world)) =
       outcome_message (fst (login sample_env login_alice_wrong sample_world))"
proof -
  have h1: "validationResult login_nobody = []"
    and h2: "validationResult login_alice_wrong = []"
    and h3: "fault sample_env Op_User_findOne = None"
    and h4: "fault sample_env Op_User_comparePassword = None"
    and h5: "find (\<lambda>u. email u = body_email login_nobody) (users sample_world) = None"
    and h6: "find (\<lambda>u. email u = body_email login_alice_wrong) (users sample_world) = Some alice"
    and h7: "\<not> password_matches sample_env (body_password login_alice_wrong) (password alice)"
    by (simp_all add: sample_defs)
  show ?thesis
    using login_failures_indistinguishable [OF h1 h2 h3 h3 h4 h5 h6 h7] h1 h2 h5 h6 h7
    by simp
qed

text \<open>
  C8. A login that passes validation, for the e-mail address of a stored account \<open>u\<close> and
  a password that matches its hash, the store calls answering and the signer issuing the
  tokens \<open>t\<close>, \<open>a\<close>, \<open>r\<close>, returns an envelope with status code 200 whose payload is
  \<open>{user: {...}}\<close> with exactly the members \<open>_id\<close>, firstName, lastName, email,
  dateOfBirth, gender, createdAt, updatedAt, role of \<open>u\<close> and the three tokens. The
  payload has no \<open>password\<close> and no \<open>confirmPassword\<close> member, and nothing in it is
  computed from the stored hash \<open>password u\<close>. The credential store is not changed.
\<close>

theorem login_correct_credentials_payload:
  assumes valid: "validationResult req = []"
    and reach: "fault env Op_User_findOne = None" "fault env Op_User_comparePassword = None"
    and account: "find (\<lambda>u. email u = body_email req) (users w) = Some u"
    and correct: "password_matches env (body_password req) (password u)"
    and legacy: "createJWT env (uid u) = Inr t"
    and access: "signAccessToken env (uid u) = Inr a"
    and refresh: "signRefreshToken env (uid u) = Inr r"
  shows "outcome_status (fst (login env req w)) = Some 200
       \<and> outcome_payload (fst (login env req w)) =
           Some (JObj [(''user'',
             JObj [(''_id'', JStr (uid u)),
                   (''firstName'', JStr (firstName u)),
                   (''lastName'', JStr (lastName u)),
                   (''email'', JStr (email u)),
                   (''dateOfBirth'', JStr (dateOfBirth u)),
                   (''gender'', JStr (gender u)),
                   (''createdAt'', JStr (createdAt u)),
                   (''updatedAt'', JStr (updatedAt u)),
                   (''role'', JStr (role u)),
                   (''token'', JStr t),
                   (''accessToken'', JStr a),
                   (''refreshToken'', JStr r)])])
       \<and> user_field_names (fst (login env req w)) =
           [''_id'', ''firstName'', ''lastName'', ''email'', ''dateOfBirth'', ''gender'',
            ''createdAt'', ''updatedAt'', ''role'', ''token'', ''accessToken'', ''refreshToken'']
       \<and> user_field ''password'' (fst (login env req w)) = None
       \<and> user_field ''confirmPassword'' (fst (login env req w)) = None
       \<and> users (snd (login env req w)) = users w"
  using assms
  by (simp add: login_def User_findOne_def User_comparePassword_def Let_def res_cookie_def
      Response_def outcome_defs)

theorem login_correct_credentials_payload_witness:
  "validationResult login_alice = []
   \<and> find (\<lambda>u. email u = body_email login_alice) (users sample_world) = Some alice
   \<and> password_matches sample_env (body_password login_alice) (password alice)
   \<and> password alice = ''hash:Secret1!''
   \<and> outcome_status (fst (login sample_env login_alice sample_world)) = Some 200
   \<and> outcome_payload (fst (login sample_env login_alice sample_world)) =
       Some (JObj [(''user'',
         JObj [(''_id'', JStr ''u1''),
               (''firstName'', JStr ''Alice''),
               (''lastName'', JStr ''Doe''),
               (''email'', JStr ''a@x.com''),
               (''dateOfBirth'', JStr ''1990-01-01''),
               (''gender'', JStr ''female''),
               (''createdAt'', JStr ''t0''),
               (''updatedAt'', JStr ''t0''),
               (''role'', JStr ''user''),
               (''token'', JStr ''jwt.u1''),
               (''accessToken'', JStr ''access.u1''),
               (''refreshToken'', JStr ''refresh.u1'')])])"
proof -
  have h1: "validationResult login_alice = []"
    and h2: "fault sample_env Op_User_findOne = None"
    and h3: "fault sample_env Op_User_comparePassword = None"
    and h4: "find (\<lambda>u. email u = body_email login_alice) (users sample_world) = Some alice"
    and h5: "password_matches sample_env (body_password login_alice) (password alice)"
    and h6: "createJWT sample_env (uid alice) = Inr ''jwt.u1''"
    and h7: "signAccessToken sample_env (uid alice) = Inr ''access.u1''"
    and h8: "signRefreshToken sample_env (uid alice) = Inr ''refresh.u1''"
    by (simp_all add: sample_defs)
  show ?thesis
    using login_correct_credentials_payload [OF h1 h2 h3 h4 h5 h6 h7 h8] h1 h4 h5
    by (simp add: alice_def)
qed

text \<open>
  The payload of a successful login does not depend on the stored hash: the same account
  with any other hash and confirmation, logged into successfully, gets the same payload.
\<close>

lemma login_payload_ignores_hash:
  assumes valid: "validationResult req = []"
    and reach: "fault env Op_User_findOne = None" "fault env Op_User_comparePassword = None"
    and account: "find (\<lambda>u. email u = body_email req) (users w) = Some u"
    and other: "find (\<lambda>u. email u = body_email req) (users w') =
                  Some (u\<lparr>password := h, confirmPassword := c\<rparr>)"
    and correct: "password_matches env (body_password req) (password u)"
                 "password_matches env (body_password req) h"
    and issued: "createJWT env (uid u) = Inr t" "signAccessToken env (uid u) = Inr a"
                "signRefreshToken env (uid u) = Inr r"
  shows "fst (login env req w') = fst (login env req w)"
  using assms
  by (simp add: login_def User_findOne_def User_comparePassword_def Let_def)

text \<open>The same login instructs the transport layer to set the three cookies.\<close>

lemma login_sets_three_cookies:
  assumes valid: "validationResult req = []"
    and reach: "fault env Op_User_findOne = None" "fault env Op_User_comparePassword = None"
    and account: "find (\<lambda>u. email u = body_email req) (users w) = Some u"
    and correct: "password_matches env (body_password req) (password u)"
    and legacy: "createJWT env (uid u) = Inr t"
    and access: "signAccessToken env (uid u) = Inr a"
    and refresh: "signRefreshToken env (uid u) = Inr r"
  shows "cookies (snd (login env req w)) = cookies w @
      [SetCookie ''authToken'' t (login_cookie env 31536000000),
       SetCookie ''accessToken'' a (login_cookie env 86400000),
       SetCookie ''refreshToken'' r (login_cookie env 604800000)]"
  using assms
  by (simp add: login_def User_findOne_def User_comparePassword_def Let_def res_cookie_def)

subsection \<open>requestPasswordReset\<close>

lemma find_Some_holds: "find P xs = Some x \<Longrightarrow> P x"
  by (induction xs) (auto split: if_splits)

lemma find_after_update:
  "find (\<lambda>x. uid x = i) xs = Some u \<Longrightarrow> uid s = i \<Longrightarrow>
   find (\<lambda>x. uid x = i) (map (\<lambda>x. if uid x = i then s else x) xs) = Some s"
  by (induction xs) (auto split: if_splits)

lemma requestPasswordReset_live_token:
  "validationResult req = [] \<Longrightarrow> fault env Op_User_findOne = None \<Longrightarrow>
   fault env Op_Token_findOne = None \<Longrightarrow>
   find (\<lambda>u. email u = body_email req) (users w) = Some u \<Longrightarrow>
   tokens w (uid u) = Some (secret, expiry) \<Longrightarrow>
   requestPasswordReset env req w =
     (Returned (Response (JStr secret) True False
        (''A reset email has been sent to '' @ body_email req @ ''.'') 200),
      send_mail (ResetPasswordEmail (body_email req) (firstName u)
        (CLIENT_URL env @ ''/reset-password/token='' @ secret @ ''&id='' @ uid u)) w)"
  by (simp add: requestPasswordReset_def User_findOne_def Token_findOne_userId_def
      token_document_def Let_def)

text \<open>
  Without a live token the handler creates one from the store's random value; the next
  request for the same account, whatever random value is then on offer, returns that
  first token again.
\<close>

lemma requestPasswordReset_creates_then_reuses:
  assumes valid: "validationResult req = []"
    and reach1: "fault env1 Op_User_findOne = None" "fault env1 Op_Token_findOne = None"
                "fault env1 Op_Token_save = None"
    and reach2: "fault env2 Op_User_findOne = None" "fault env2 Op_Token_findOne = None"
    and account: "find (\<lambda>u. email u = body_email req) (users w) = Some u"
    and none: "tokens w (uid u) = None"
  shows "outcome_payload (fst (requestPasswordReset env1 req w)) =
           Some (JStr (random_token env1))
       \<and> outcome_payload
           (fst (requestPasswordReset env2 req (snd (requestPasswordReset env1 req w)))) =
           Some (JStr (random_token env1))"
proof -
  let ?w1 = "snd (requestPasswordReset env1 req w)"
  have first: "outcome_payload (fst (requestPasswordReset env1 req w)) =
      Some (JStr (random_token env1))"
    and kept: "users ?w1 = users w"
    and live: "tokens ?w1 (uid u) = Some (random_token env1, token_expiry env1)"
    using valid reach1 account none
    by (simp_all add: requestPasswordReset_def User_findOne_def Token_findOne_userId_def
        Token_save_def new_Token_def Let_def send_mail_def Response_def outcome_defs)
  have account2: "find (\<lambda>u. email u = body_email req) (users ?w1) = Some u"
    using account kept by simp
  have "requestPasswordReset env2 req ?w1 =
     (Returned (Response (JStr (random_token env1)) True False
        (''A reset email has been sent to '' @ body_email req @ ''.'') 200),
      send_mail (ResetPasswordEmail (body_email req) (firstName u)
        (CLIENT_URL env2 @ ''/reset-password/token='' @ random_token env1 @ ''&id='' @ uid u))
        ?w1)"
    using valid reach2 account2 live by (rule requestPasswordReset_live_token)
  then show ?thesis
    using first by (simp add: Response_def outcome_defs)
qed

text \<open>
  C3. For a stored account \<open>u\<close> with a live reset token \<open>secret\<close>, two successive
  requests for a password reset for the address of \<open>u\<close> (both passing validation, the
  store lookups answering; the second runs on the world the first one left) both return
  status code 200 with the payload \<open>secret\<close>: the stored token is reused, and the token
  store after the two calls is the one before them.
\<close>

theorem requestPasswordReset_reuses_live_token:
  assumes valid: "validationResult req1 = []" "validationResult req2 = []"
    and same: "body_email req2 = body_email req1"
    and reach1: "fault env1 Op_User_findOne = None" "fault env1 Op_Token_findOne = None"
    and reach2: "fault env2 Op_User_findOne = None" "fault env2 Op_Token_findOne = None"
    and account: "find (\<lambda>u. email u = body_email req1) (users w) = Some u"
    and live: "tokens w (uid u) = Some (secret, expiry)"
  shows "outcome_status (fst (requestPasswordReset env1 req1 w)) = Some 200
       \<and> outcome_payload (fst (requestPasswordReset env1 req1 w)) = Some (JStr secret)
       \<and> outcome_status
           (fst (requestPasswordReset env2 req2 (snd (requestPasswordReset env1 req1 w)))) =
           Some 200
       \<and> outcome_payload
           (fst (requestPasswordReset env2 req2 (snd (requestPasswordReset env1 req1 w)))) =
           Some (JStr secret)
       \<and> tokens (snd (requestPasswordReset env2 req2 (snd (requestPasswordReset env1 req1 w))))
           = tokens w"
proof -
  let ?w1 = "snd (requestPasswordReset env1 req1 w)"
  have first: "requestPasswordReset env1 req1 w =
     (Returned (Response (JStr secret) True False
        (''A reset email has been sent to '' @ body_email req1 @ ''.'') 200),
      send_mail (ResetPasswordEmail (body_email req1) (firstName u)
        (CLIENT_URL env1 @ ''/reset-password/token='' @ secret @ ''&id='' @ uid u)) w)"
    using valid(1) reach1 account live by (rule requestPasswordReset_live_token)
  have kept: "users ?w1 = users w" "tokens ?w1 = tokens w"
    by (simp_all add: first send_mail_def)
  have account2: "find (\<lambda>u. email u = body_email req2) (users ?w1) = Some u"
    using account same kept by simp
  have live2: "tokens ?w1 (uid u) = Some (secret, expiry)"
    using live kept by simp
  have second: "requestPasswordReset env2 req2 ?w1 =
     (Returned (Response (JStr secret) True False
        (''A reset email has been sent to '' @ body_email req2 @ ''.'') 200),
      send_mail (ResetPasswordEmail (body_email req2) (firstName u)
        (CLIENT_URL env2 @ ''/reset-password/token='' @ secret @ ''&id='' @ uid u)) ?w1)"
    using valid(2) reach2 account2 live2 by (rule requestPasswordReset_live_token)
  show ?thesis
    unfolding second unfolding first
    by (simp add: Response_def outcome_defs send_mail_def)
qed

theorem requestPasswordReset_reuses_live_token_witness:
  "validationResult forgot_alice = []
   \<and> find (\<lambda>u. email u = body_email forgot_alice) (users world_with_token) = Some alice
   \<and> tokens world_with_token (uid alice) = Some (''tok1'', ''t2'')
   \<and> outcome_status (fst (requestPasswordReset sample_env forgot_alice world_with_token)) =
       Some 200
   \<and> outcome_payload (fst (requestPasswordReset sample_env forgot_alice world_with_token)) =
       Some (JStr ''tok1'')
   \<and> outcome_payload
       (fst (requestPasswordReset sample_env forgot_alice
          (snd (requestPasswordReset sample_env forgot_alice world_with_token)))) =
       Some (JStr ''tok1'')"
proof -
  have h1: "validationResult forgot_alice = []"
    and h2: "body_email forgot_alice = body_email forgot_alice"
    and h3: "fault sample_env Op_User_findOne = None"
    and h4: "fault sample_env Op_Token_findOne = None"
    and h5: "find (\<lambda>u. email u = body_email forgot_alice) (users world_with_token) = Some alice"
    and h6: "tokens world_with_token (uid alice) = Some (''tok1'', ''t2'')"
    by (simp_all add: sample_defs)
  show ?thesis
    using requestPasswordReset_reuses_live_token [OF h1 h1 h2 h3 h4 h3 h4 h5 h6] h1 h5 h6
    by simp
qed

subsection \<open>resetPassword\<close>

lemma resetPassword_no_matching_token:
  "validationResult req = [] \<Longrightarrow> fault env Op_User_findById = None \<Longrightarrow>
   fault env Op_Token_findOne = None \<Longrightarrow>
   find (\<lambda>u. uid u = params_userId req) (users w) = Some u \<Longrightarrow>
   map_option fst (tokens w (uid u)) \<noteq> Some (params_token req) \<Longrightarrow>
   resetPassword env req w = (Returned invalid_reset_token, w)"
  by (auto simp: resetPassword_def User_findById_def Token_findOne_userId_token_def
      split: option.splits)

text \<open>
  C5. A password reset that passes validation, for the id of a stored user \<open>u\<close> and a
  token string that is not the string of a stored token of \<open>u\<close> (the store lookups
  answering), returns status code 400 with the message \<open>Password reset token is invalid
  or has expired.\<close> and leaves the world as it was: \<open>u\<close> is stored unchanged.
\<close>

theorem resetPassword_wrong_token_rejected:
  assumes valid: "validationResult req = []"
    and reach: "fault env Op_User_findById = None" "fault env Op_Token_findOne = None"
    and account: "find (\<lambda>u. uid u = params_userId req) (users w) = Some u"
    and wrong: "map_option fst (tokens w (uid u)) \<noteq> Some (params_token req)"
  shows "outcome_status (fst (resetPassword env req w)) = Some 400
       \<and> outcome_message (fst (resetPassword env req w)) =
           Some ''Password reset token is invalid or has expired.''
       \<and> snd (resetPassword env req w) = w
       \<and> find (\<lambda>u. uid u = params_userId req) (users (snd (resetPassword env req w))) = Some u"
proof -
  have "resetPassword env req w = (Returned invalid_reset_token, w)"
    using valid reach account wrong by (rule resetPassword_no_matching_token)
  then show ?thesis
    using account by (simp add: invalid_reset_token_def Response_def outcome_defs)
qed

theorem resetPassword_wrong_token_rejected_witness:
  "validationResult reset_alice_wrong = []
   \<and> find (\<lambda>u. uid u = params_userId reset_alice_wrong) (users world_with_token) = Some alice
   \<and> map_option fst (tokens world_with_token (uid alice)) \<noteq>
       Some (params_token reset_alice_wrong)
   \<and> outcome_status (fst (resetPassword sample_env reset_alice_wrong world_with_token)) =
       Some 400
   \<and> map password (users (snd (resetPassword sample_env reset_alice_wrong world_with_token))) =
       [''hash:Secret1!'']"
proof -
  have h1: "validationResult reset_alice_wrong = []"
    and h2: "fault sample_env Op_User_findById = None"
    and h3: "fault sample_env Op_Token_findOne = None"
    and h4: "find (\<lambda>u. uid u = params_userId reset_alice_wrong) (users world_with_token) =
              Some alice"
    and h5: "map_option fst (tokens world_with_token (uid alice)) \<noteq>
              Some (params_token reset_alice_wrong)"
    by (simp_all add: sample_defs)
  show ?thesis
    using resetPassword_wrong_token_rejected [OF h1 h2 h3 h4 h5] h1 h4 h5
    by (simp add: sample_defs)
qed

text \<open>What a \<open>resetPassword\<close> that answers 200 has found and done.\<close>

lemma resetPassword_success_cases:
  assumes ok: "outcome_status (fst (resetPassword env req w)) = Some 200"
  obtains u expiry where
    "find (\<lambda>u. uid u = params_userId req) (users w) = Some u"
    "tokens w (uid u) = Some (params_token req, expiry)"
    "users (snd (resetPassword env req w)) =
       map (\<lambda>x. if uid x = uid u then password_reset_of env req u else x) (users w)"
    "tokens (snd (resetPassword env req w)) = (tokens w)(uid u := None)"
proof -
  from ok have valid: "validationResult req = []"
    by (auto simp: resetPassword_def validation_failure_def Response_def outcome_defs
        split: list.splits)
  from ok valid obtain u where found: "User_findById env (params_userId req) w = Inr (Some u)"
    by (auto simp: resetPassword_def invalid_reset_token_def Response_def outcome_defs
        split: sum.splits option.splits)
  from ok valid found obtain t where
    token: "Token_findOne_userId_token env (uid u) (params_token req) w = Inr (Some t)"
    by (auto simp: resetPassword_def invalid_reset_token_def Response_def outcome_defs
        split: sum.splits option.splits)
  from found have account: "find (\<lambda>u. uid u = params_userId req) (users w) = Some u"
    by (auto simp: User_findById_def split: option.splits)
  from token obtain expiry where
    live: "tokens w (uid u) = Some (params_token req, expiry)"
    and t_def: "t = token_document (uid u) (params_token req, expiry)"
    by (auto simp: Token_findOne_userId_token_def split: option.splits if_splits)
  from ok valid found token have save: "fault env Op_User_save = None"
    by (auto simp: resetPassword_def User_update_def Let_def outcome_defs
        split: option.splits)
  from ok valid found token save have del: "fault env Op_Token_delete = None"
    by (auto simp: resetPassword_def User_update_def Token_delete_def Let_def outcome_defs
        split: option.splits)
  have "users (snd (resetPassword env req w)) =
       map (\<lambda>x. if uid x = uid u then password_reset_of env req u else x) (users w)"
    and "tokens (snd (resetPassword env req w)) = (tokens w)(uid u := None)"
    using valid found token save del
    by (simp_all add: resetPassword_def User_update_def Token_delete_def Let_def
        send_mail_def password_reset_of_def t_def token_document_def)
  with account live show thesis by (rule that)
qed

text \<open>
  C4. After a password reset that returned status code 200, the token store holds no
  token for that user id; a second reset with the same user id and token string (passing
  validation, the store lookups answering), run on the world the first one left, returns
  status code 400 and leaves that world as it was, so the password stays the one the
  first reset stored.
\<close>

theorem resetPassword_token_single_use:
  assumes first: "outcome_status (fst (resetPassword env1 req1 w)) = Some 200"
    and same: "params_userId req2 = params_userId req1" "params_token req2 = params_token req1"
    and valid2: "validationResult req2 = []"
    and reach2: "fault env2 Op_User_findById = None" "fault env2 Op_Token_findOne = None"
  shows "tokens (snd (resetPassword env1 req1 w)) (params_userId req1) = None
       \<and> outcome_status
           (fst (resetPassword env2 req2 (snd (resetPassword env1 req1 w)))) = Some 400
       \<and> snd (resetPassword env2 req2 (snd (resetPassword env1 req1 w))) =
           snd (resetPassword env1 req1 w)"
proof -
  let ?w1 = "snd (resetPassword env1 req1 w)"
  from first obtain u expiry where
    account: "find (\<lambda>u. uid u = params_userId req1) (users w) = Some u"
    and users1: "users ?w1 =
       map (\<lambda>x. if uid x = uid u then password_reset_of env1 req1 u else x) (users w)"
    and tokens1: "tokens ?w1 = (tokens w)(uid u := None)"
    by (rule resetPassword_success_cases)
  have key: "uid u = params_userId req1"
    using find_Some_holds [OF account] .
  have gone: "tokens ?w1 (params_userId req1) = None"
    by (simp add: tokens1 key)
  have "uid (password_reset_of env1 req1 u) = params_userId req1"
    by (simp add: password_reset_of_def key)
  with account have
    "find (\<lambda>x. uid x = params_userId req1)
       (map (\<lambda>x. if uid x = params_userId req1 then password_reset_of env1 req1 u else x)
          (users w)) = Some (password_reset_of env1 req1 u)"
    by (rule find_after_update)
  then have account2: "find (\<lambda>u. uid u = params_userId req2) (users ?w1) =
      Some (password_reset_of env1 req1 u)"
    by (simp add: users1 key same)
  have wrong: "map_option fst (tokens ?w1 (uid (password_reset_of env1 req1 u))) \<noteq>
      Some (params_token req2)"
    by (simp add: password_reset_of_def tokens1)
  have "resetPassword env2 req2 ?w1 = (Returned invalid_reset_token, ?w1)"
    using valid2 reach2 account2 wrong by (rule resetPassword_no_matching_token)
  then show ?thesis
    using gone by (simp add: invalid_reset_token_def Response_def outcome_defs)
qed

theorem resetPassword_token_single_use_witness:
  "outcome_status (fst (resetPassword sample_env reset_alice world_with_token)) = Some 200
   \<and> validationResult reset_alice = []
   \<and> tokens (snd (resetPassword sample_env reset_alice world_with_token)) ''u1'' = None
   \<and> outcome_status
       (fst (resetPassword sample_env reset_alice
          (snd (resetPassword sample_env reset_alice world_with_token)))) = Some 400
   \<and> map password (users (snd (resetPassword sample_env reset_alice
          (snd (resetPassword sample_env reset_alice world_with_token))))) =
       [''hash:NewSecret2!'']"
proof -
  have h1: "outcome_status (fst (resetPassword sample_env reset_alice world_with_token)) =
              Some 200"
    by (simp add: resetPassword_def User_findById_def Token_findOne_userId_token_def
        User_update_def Token_delete_def Let_def send_mail_def Response_def outcome_defs
        token_document_def rehash_def sample_defs)
  have h2: "params_userId reset_alice = params_userId reset_alice"
    and h3: "params_token reset_alice = params_token reset_alice"
    and h4: "validationResult reset_alice = []"
    and h5: "fault sample_env Op_User_findById = None"
    and h6: "fault sample_env Op_Token_findOne = None"
    by (simp_all add: sample_defs)
  have after: "map password (users (snd (resetPassword sample_env reset_alice world_with_token)))
      = [''hash:NewSecret2!'']"
    by (simp add: resetPassword_def User_findById_def Token_findOne_userId_token_def
        User_update_def Token_delete_def Let_def send_mail_def
        token_document_def rehash_def sample_defs)
  have uid1: "params_userId reset_alice = ''u1''"
    by (simp add: sample_defs)
  show ?thesis
    using resetPassword_token_single_use [OF h1 h2 h3 h4 h5 h6] h1 h4 after uid1
    by simp
qed

text \<open>
  C10. In a password reset that passes validation and finds the user \<open>u\<close> and the live
  token with the submitted string: if saving the user fails with \<open>err\<close>, the outcome is
  \<open>next(err)\<close>, the world is unchanged and the token is still live; and if the token of
  \<open>u\<close> is gone after the call, then the save did not fail and the store holds \<open>u\<close> with
  the new password (rehashed): the token is deleted only after the user is persisted.
\<close>

theorem resetPassword_deletes_token_after_save:
  assumes valid: "validationResult req = []"
    and reach: "fault env Op_User_findById = None" "fault env Op_Token_findOne = None"
    and account: "find (\<lambda>u. uid u = params_userId req) (users w) = Some u"
    and live: "tokens w (uid u) = Some (params_token req, expiry)"
  shows "(fault env Op_User_save = Some err \<longrightarrow>
            fst (resetPassword env req w) = Forwarded err
          \<and> snd (resetPassword env req w) = w
          \<and> tokens (snd (resetPassword env req w)) (uid u) = Some (params_token req, expiry))
       \<and> (tokens (snd (resetPassword env req w)) (uid u) = None \<longrightarrow>
            fault env Op_User_save = None
          \<and> users (snd (resetPassword env req w)) =
              map (\<lambda>x. if uid x = uid u then password_reset_of env req u else x) (users w)
          \<and> find (\<lambda>x. uid x = uid u) (users (snd (resetPassword env req w))) =
              Some (password_reset_of env req u))"
proof -
  have found: "User_findById env (params_userId req) w = Inr (Some u)"
    using reach(1) account by (simp add: User_findById_def)
  have token: "Token_findOne_userId_token env (uid u) (params_token req) w =
      Inr (Some (token_document (uid u) (params_token req, expiry)))"
    using reach(2) live by (simp add: Token_findOne_userId_token_def)
  have failing: "fst (resetPassword env req w) = Forwarded err
      \<and> snd (resetPassword env req w) = w
      \<and> tokens (snd (resetPassword env req w)) (uid u) = Some (params_token req, expiry)"
    if "fault env Op_User_save = Some err"
    using that valid found token live
    by (simp add: resetPassword_def User_update_def Let_def)
  have key: "uid u = params_userId req"
    using find_Some_holds [OF account] .
  have deleting: "fault env Op_User_save = None
      \<and> users (snd (resetPassword env req w)) =
          map (\<lambda>x. if uid x = uid u then password_reset_of env req u else x) (users w)
      \<and> find (\<lambda>x. uid x = uid u) (users (snd (resetPassword env req w))) =
          Some (password_reset_of env req u)"
    if gone: "tokens (snd (resetPassword env req w)) (uid u) = None"
  proof -
    have save: "fault env Op_User_save = None"
    proof (cases "fault env Op_User_save")
      case None then show ?thesis .
    next
      case (Some e)
      with valid found token live gone show ?thesis
        by (simp add: resetPassword_def User_update_def Let_def)
    qed
    have users1: "users (snd (resetPassword env req w)) =
          map (\<lambda>x. if uid x = uid u then password_reset_of env req u else x) (users w)"
      using valid found token save
      by (cases "fault env Op_Token_delete")
         (simp_all add: resetPassword_def User_update_def Token_delete_def Let_def
            send_mail_def password_reset_of_def)
    have "uid (password_reset_of env req u) = params_userId req"
      by (simp add: password_reset_of_def key)
    with account have
      "find (\<lambda>x. uid x = params_userId req)
         (map (\<lambda>x. if uid x = params_userId req then password_reset_of env req u else x)
            (users w)) = Some (password_reset_of env req u)"
      by (rule find_after_update)
    then show ?thesis
      using save users1 by (simp add: key)
  qed
  show ?thesis
    using failing deleting by blast
qed

theorem resetPassword_deletes_token_after_save_witness:
  "validationResult reset_alice = []
   \<and> find (\<lambda>u. uid u = params_userId reset_alice) (users world_with_token) = Some alice
   \<and> tokens world_with_token (uid alice) = Some (params_token reset_alice, ''t2'')
   \<and> fault save_fails Op_User_save = Some (Thrown None ''MongoNetworkError'')
   \<and> fst (resetPassword save_fails reset_alice world_with_token) =
       Forwarded (Thrown None ''MongoNetworkError'')
   \<and> tokens (snd (resetPassword save_fails reset_alice world_with_token)) ''u1'' =
       Some (''tok1'', ''t2'')
   \<and> tokens (snd (resetPassword sample_env reset_alice world_with_token)) ''u1'' = None
   \<and> fault sample_env Op_User_save = None
   \<and> map password (users (snd (resetPassword sample_env reset_alice world_with_token))) =
       [''hash:NewSecret2!'']"
proof -
  have h1: "validationResult reset_alice = []"
    and h2: "fault save_fails Op_User_findById = None"
    and h3: "fault save_fails Op_Token_findOne = None"
    and h4: "find (\<lambda>u. uid u = params_userId reset_alice) (users world_with_token) = Some alice"
    and h5: "tokens world_with_token (uid alice) = Some (params_token reset_alice, ''t2'')"
    and h6: "fault save_fails Op_User_save = Some (Thrown None ''MongoNetworkError'')"
    and h7: "fault sample_env Op_User_findById = None"
    and h8: "fault sample_env Op_Token_findOne = None"
    and h9: "fault sample_env Op_User_save = None"
    by (simp_all add: sample_defs)
  have gone: "tokens (snd (resetPassword sample_env reset_alice world_with_token)) (uid alice)
      = None"
    by (simp add: resetPassword_def User_findById_def Token_findOne_userId_token_def
        User_update_def Token_delete_def Let_def send_mail_def
        token_document_def rehash_def sample_defs)
  have stored: "map password
      (map (\<lambda>x. if uid x = uid alice then password_reset_of sample_env reset_alice alice
                 else x) (users world_with_token)) = [''hash:NewSecret2!'']"
    by (simp add: password_reset_of_def rehash_def sample_defs)
  have key: "uid alice = ''u1''" "params_token reset_alice = ''tok1''"
    by (simp_all add: sample_defs)
  show ?thesis
    using resetPassword_deletes_token_after_save
            [OF h1 h2 h3 h4 h5, of "Thrown None ''MongoNetworkError''"]
          resetPassword_deletes_token_after_save
            [OF h1 h7 h8 h4 h5, of "Thrown None ''MongoNetworkError''"]
          h1 h4 h5 h6 h9 gone stored key
    by simp
qed

subsection \<open>logout\<close>

lemma stray_identifier_unbound:
  "''s'' \<notin> set (globals env) \<Longrightarrow>
   resolve_identifier env ''s'' = Inl (Thrown None ''ReferenceError: s is not defined'')"
  by (simp add: resolve_identifier_def logout_scope_def)

text \<open>
  Whenever the refresh token verifies to the id of a stored user and the global object
  binds no \<open>s\<close>, control reaches line 309 and the handler ends in \<open>next(error)\<close> with a
  ReferenceError: no cookie is cleared and no envelope is returned.
\<close>

lemma logout_existing_user_throws:
  assumes given: "body_refreshToken req = Some refreshToken" "refreshToken \<noteq> []"
    and verified: "verifyRefreshToken env refreshToken = Inr ident"
    and reach: "fault env Op_User_findById = None"
    and account: "find (\<lambda>u. uid u = ident) (users w) = Some u"
    and unbound: "''s'' \<notin> set (globals env)"
  shows "logout env req w = (Forwarded (Thrown None ''ReferenceError: s is not defined''), w)"
  using given verified reach account stray_identifier_unbound [OF unbound]
  by (simp add: logout_def User_findById_def)

text \<open>
  The statements after line 309 do what the handler's documentation announces: were \<open>s\<close>
  bound, the same call would clear the two cookies (not the legacy \<open>authToken\<close> cookie)
  and return status code 200.
\<close>

lemma logout_past_stray_identifier:
  assumes given: "body_refreshToken req = Some refreshToken" "refreshToken \<noteq> []"
    and verified: "verifyRefreshToken env refreshToken = Inr ident"
    and reach: "fault env Op_User_findById = None"
    and account: "find (\<lambda>u. uid u = ident) (users w) = Some u"
    and bound: "''s'' \<in> set (globals env)"
  shows "outcome_status (fst (logout env req w)) = Some 200
       \<and> cookies (snd (logout env req w)) =
           cookies w @ [ClearCookie ''accessToken'', ClearCookie ''refreshToken'']"
  using assms
  by (simp add: logout_def User_findById_def resolve_identifier_def res_clearCookie_def
      Let_def Response_def outcome_defs)

text \<open>
  C1 fails on the code. The logout of Alice, whose refresh token verifies to the id \<open>u1\<close>
  of her stored account, does not return an envelope with status code 200 and clears no
  cookie: the stray identifier \<open>s\<close> on line 309 throws, and the error goes to \<open>next\<close>.
\<close>

theorem logout_alice_forwards_ReferenceError:
  "body_refreshToken logout_alice = Some ''refresh.u1''
   \<and> verifyRefreshToken sample_env ''refresh.u1'' = Inr ''u1''
   \<and> find (\<lambda>u. uid u = ''u1'') (users sample_world) = Some alice
   \<and> fst (logout sample_env logout_alice sample_world) =
       Forwarded (Thrown None ''ReferenceError: s is not defined'')
   \<and> outcome_status (fst (logout sample_env logout_alice sample_world)) = None
   \<and> cookies (snd (logout sample_env logout_alice sample_world)) = []"
  by (simp add: logout_def User_findById_def resolve_identifier_def logout_scope_def
      outcome_defs sample_defs)

end
